theory Spec2Isabelle
  imports Complex_Main "HOL-Library.AList"
begin

section \<open>The recommendation engine of \<^verbatim>\<open>src/modules/recommendations.py\<close>\<close>

text \<open>
  The class \<^verbatim>\<open>RecommendationModule\<close> is embedded shallowly. Modelling conventions:
  \<^item> a performer, scene or statistics dictionary is a record; a field read with
    \<^verbatim>\<open>d.get(k)\<close> or \<^verbatim>\<open>d.get(k, default)\<close> is an \<open>option\<close>, \<open>None\<close> when the key is
    absent, and every read writes the source's default out; a key that is present holds
    a value of the type the data model gives it;
  \<^item> Python integers are \<open>int\<close>; Python floats are exact rationals (\<open>rat\<close>), so
    rounding is not modelled;
  \<^item> a Python \<^verbatim>\<open>dict\<close> whose iteration order the code relies on (the two caches, a
    \<^verbatim>\<open>Counter\<close>) is an association list in insertion order: assigning to a
    present key keeps its position, a new key goes to the end;
  \<^item> an exception is a value of type \<open>error\<close>; a computation that can raise returns
    \<open>error + 'a\<close>, and every \<^verbatim>\<open>try/except\<close> of the source is a case distinction;
  \<^item> \<^verbatim>\<open>random.shuffle\<close> takes its permutation from an explicit argument;
  \<^item> the texts built for display only (\<^verbatim>\<open>reason\<close>, \<^verbatim>\<open>cup_size\<close>, \<^verbatim>\<open>measurements\<close>)
    are left out of the recommendation records.
\<close>

subsection \<open>Data model\<close>

datatype error = ZeroDivisionError | ValueError | CollaboratorError

text \<open>\<^verbatim>\<open>band_size\<close> is "integer-like": an integer or a string holding one.\<close>

datatype band = BandInt int | BandStr string

record performer =
  id_performer :: "string option"
  name :: "string option"
  favorite :: "bool option"
  bmi :: "rat option"
  cup_to_bmi :: "rat option"
  o_counter :: "int option"
  scene_count :: "int option"
  band_size :: "band option"
  cup_letter :: "string option"
  volume_cc :: "rat option"
  height_cm :: "rat option"
  weight :: "rat option"

text \<open>A tag dictionary holds one key the code reads, \<^verbatim>\<open>name\<close>.\<close>

type_synonym tag = "string option"

record scene =
  id_scene :: "string option"
  title :: "string option"
  performers :: "performer list"
  tags :: "tag list"
  o_counter_scene :: "int option"

subsection \<open>Python primitives\<close>

definition get_default :: "'a option \<Rightarrow> 'a \<Rightarrow> 'a" where
  "get_default v d = (case v of None \<Rightarrow> d | Some x \<Rightarrow> x)"

text \<open>Truth value of an optional number: \<^verbatim>\<open>None\<close> and zero are false.\<close>

definition truthy_num :: "rat option \<Rightarrow> bool" where
  "truthy_num v = (case v of None \<Rightarrow> False | Some x \<Rightarrow> x \<noteq> 0)"

definition truthy_str :: "string option \<Rightarrow> bool" where
  "truthy_str v = (case v of None \<Rightarrow> False | Some s \<Rightarrow> s \<noteq> [])"

definition truthy_band :: "band option \<Rightarrow> bool" where
  "truthy_band v =
     (case v of None \<Rightarrow> False | Some (BandInt i) \<Rightarrow> i \<noteq> 0 | Some (BandStr s) \<Rightarrow> s \<noteq> [])"

text \<open>The true division \<^verbatim>\<open>a / b\<close>, which raises on a zero divisor.\<close>

definition py_truediv :: "rat \<Rightarrow> rat \<Rightarrow> error + rat" where
  "py_truediv a b = (if b = 0 then Inl ZeroDivisionError else Inr (a / b))"

text \<open>
  \<^verbatim>\<open>int(s)\<close> on a string, in base ten and over ASCII: surrounding whitespace is
  stripped, one sign is allowed, and single underscores may separate digits. Anything
  else raises \<^verbatim>\<open>ValueError\<close>.
\<close>

definition is_space :: "char \<Rightarrow> bool" where
  "is_space c = (of_char c \<in> set [9, 10, 11, 12, 13, 28, 29, 30, 31, 32 :: nat])"

definition is_digit :: "char \<Rightarrow> bool" where
  "is_digit c = (48 \<le> (of_char c :: nat) \<and> (of_char c :: nat) \<le> 57)"

definition digit_val :: "char \<Rightarrow> nat" where
  "digit_val c = of_char c - 48"

fun py_digits :: "string \<Rightarrow> nat \<Rightarrow> nat option" where
  "py_digits [] acc = Some acc"
| "py_digits [c] acc = (if is_digit c then Some (acc * 10 + digit_val c) else None)"
| "py_digits (c # d # ds) acc =
     (if c = CHR ''_''
      then (if is_digit d then py_digits ds (acc * 10 + digit_val d) else None)
      else if is_digit c then py_digits (d # ds) (acc * 10 + digit_val c)
      else None)"

definition py_nat :: "string \<Rightarrow> nat option" where
  "py_nat s = (case s of [] \<Rightarrow> None
     | c # cs \<Rightarrow> if is_digit c then py_digits cs (digit_val c) else None)"

definition strip :: "string \<Rightarrow> string" where
  "strip s = rev (dropWhile is_space (rev (dropWhile is_space s)))"

definition int_of_str :: "string \<Rightarrow> int option" where
  "int_of_str s =
     (case strip s of
        [] \<Rightarrow> None
      | c # cs \<Rightarrow>
          if c = CHR ''+'' then map_option int (py_nat cs)
          else if c = CHR ''-'' then map_option (\<lambda>n. - int n) (py_nat cs)
          else map_option int (py_nat (c # cs)))"

definition py_int :: "band \<Rightarrow> error + int" where
  "py_int b =
     (case b of
        BandInt i \<Rightarrow> Inr i
      | BandStr s \<Rightarrow> (case int_of_str s of None \<Rightarrow> Inl ValueError | Some i \<Rightarrow> Inr i))"

text \<open>\<^verbatim>\<open>s.index(sub)\<close>: the first position where \<open>sub\<close> starts, or \<^verbatim>\<open>ValueError\<close>.\<close>

fun find_sub :: "string \<Rightarrow> string \<Rightarrow> nat option" where
  "find_sub [] sub = (if sub = [] then Some 0 else None)"
| "find_sub (c # cs) sub =
     (if take (length sub) (c # cs) = sub then Some 0
      else map_option Suc (find_sub cs sub))"

definition str_index :: "string \<Rightarrow> string \<Rightarrow> error + nat" where
  "str_index s sub = (case find_sub s sub of None \<Rightarrow> Inl ValueError | Some i \<Rightarrow> Inr i)"

subsection \<open>\<^verbatim>\<open>_calculate_similarity\<close>\<close>

text \<open>
  The similarity is a running sum; each block of the source adds its term to it, or
  raises. A block is modelled as the term it adds (zero when its guard fails).
\<close>

definition ratio_similarity :: "rat \<Rightarrow> rat \<Rightarrow> error + rat" where
  \<comment> \<open>\<^verbatim>\<open>1 - min(abs(a - b) / max(a, b), 1)\<close>\<close>
  "ratio_similarity a b =
     (case py_truediv \<bar>a - b\<bar> (max a b) of
        Inl e \<Rightarrow> Inl e
      | Inr q \<Rightarrow> Inr (1 - min q 1))"

definition weighted :: "rat \<Rightarrow> error + rat \<Rightarrow> error + rat" where
  "weighted w r = (case r of Inl e \<Rightarrow> Inl e | Inr x \<Rightarrow> Inr (x * w))"

definition cup_to_bmi_term :: "performer \<Rightarrow> performer \<Rightarrow> error + rat" where
  "cup_to_bmi_term base_performer target_performer =
     (if truthy_num (bmi base_performer) \<and> truthy_num (bmi target_performer) then
        (let cup_to_bmi_base = get_default (cup_to_bmi base_performer) 0;
             cup_to_bmi_target = get_default (cup_to_bmi target_performer) 0
         in if cup_to_bmi_base \<noteq> 0 \<and> cup_to_bmi_target \<noteq> 0
            then weighted (3 / 10) (ratio_similarity cup_to_bmi_base cup_to_bmi_target)
            else Inr 0)
      else Inr 0)"

definition o_counter_term :: "performer \<Rightarrow> performer \<Rightarrow> error + rat" where
  "o_counter_term base_performer target_performer =
     (let base_o_counter = get_default (o_counter base_performer) 0;
          target_o_counter = get_default (o_counter target_performer) 0
      in if base_o_counter > 0 \<and> target_o_counter > 0
         then weighted (2 / 10)
                (ratio_similarity (of_int base_o_counter) (of_int target_o_counter))
         else Inr 0)"

definition scene_count_term :: "performer \<Rightarrow> performer \<Rightarrow> error + rat" where
  "scene_count_term base_performer target_performer =
     (let base_scene_count = get_default (scene_count base_performer) 0;
          target_scene_count = get_default (scene_count target_performer) 0
      in if base_scene_count > 0 \<and> target_scene_count > 0
         then weighted (1 / 10)
                (ratio_similarity (of_int base_scene_count) (of_int target_scene_count))
         else Inr 0)"

text \<open>
  The band-size block converts both values with \<^verbatim>\<open>int\<close> inside a \<^verbatim>\<open>try\<close> that
  catches \<^verbatim>\<open>ValueError\<close> and \<^verbatim>\<open>ZeroDivisionError\<close> and then adds nothing.
\<close>

definition band_try :: "band \<Rightarrow> band \<Rightarrow> error + rat" where
  "band_try base_band target_band =
     (case py_int base_band of
        Inl e \<Rightarrow> Inl e
      | Inr i \<Rightarrow>
          (case py_int target_band of
             Inl e \<Rightarrow> Inl e
           | Inr j \<Rightarrow>
               (case py_truediv (of_int \<bar>i - j\<bar>) (of_int (max i j)) of
                  Inl e \<Rightarrow> Inl e
                | Inr q \<Rightarrow> Inr ((1 - min q 1) * (2 / 10)))))"

definition except_value_zero :: "error + rat \<Rightarrow> error + rat" where
  \<comment> \<open>\<^verbatim>\<open>except (ValueError, ZeroDivisionError): pass\<close>\<close>
  "except_value_zero r =
     (case r of
        Inl ValueError \<Rightarrow> Inr 0
      | Inl ZeroDivisionError \<Rightarrow> Inr 0
      | Inl e \<Rightarrow> Inl e
      | Inr x \<Rightarrow> Inr x)"

definition band_size_term :: "performer \<Rightarrow> performer \<Rightarrow> error + rat" where
  "band_size_term base_performer target_performer =
     (if truthy_band (band_size base_performer) \<and> truthy_band (band_size target_performer)
      then except_value_zero
             (band_try (the (band_size base_performer)) (the (band_size target_performer)))
      else Inr 0)"

definition cup_letters :: string where
  "cup_letters = ''ABCDEFGHIJK''"

definition cup_try :: "string \<Rightarrow> string \<Rightarrow> error + rat" where
  "cup_try base_cup target_cup =
     (case str_index cup_letters base_cup of
        Inl e \<Rightarrow> Inl e
      | Inr base_cup_index \<Rightarrow>
          (case str_index cup_letters target_cup of
             Inl e \<Rightarrow> Inl e
           | Inr target_cup_index \<Rightarrow>
               (case py_truediv (of_int \<bar>int base_cup_index - int target_cup_index\<bar>)
                       (of_nat (length cup_letters)) of
                  Inl e \<Rightarrow> Inl e
                | Inr q \<Rightarrow> Inr ((1 - min q 1) * (2 / 10)))))"

definition cup_letter_term :: "performer \<Rightarrow> performer \<Rightarrow> error + rat" where
  "cup_letter_term base_performer target_performer =
     (if truthy_str (cup_letter base_performer) \<and> truthy_str (cup_letter target_performer)
      then except_value_zero
             (cup_try (the (cup_letter base_performer)) (the (cup_letter target_performer)))
      else Inr 0)"

definition volume_term :: "performer \<Rightarrow> performer \<Rightarrow> error + rat" where
  "volume_term base_performer target_performer =
     (let base_volume = get_default (volume_cc base_performer) 0;
          target_volume = get_default (volume_cc target_performer) 0
      in if base_volume > 0 \<and> target_volume > 0
         then weighted (3 / 10) (ratio_similarity base_volume target_volume)
         else Inr 0)"

definition fixed_scale_similarity :: "rat \<Rightarrow> rat \<Rightarrow> error + rat" where
  \<comment> \<open>\<^verbatim>\<open>1 - min(abs(a - b) / 30, 1)\<close>\<close>
  "fixed_scale_similarity a b =
     (case py_truediv \<bar>a - b\<bar> 30 of
        Inl e \<Rightarrow> Inl e
      | Inr q \<Rightarrow> Inr (1 - min q 1))"

definition height_term :: "performer \<Rightarrow> performer \<Rightarrow> error + rat" where
  "height_term base_performer target_performer =
     (let base_height = get_default (height_cm base_performer) 0;
          target_height = get_default (height_cm target_performer) 0
      in if base_height > 0 \<and> target_height > 0
         then weighted (1 / 10) (fixed_scale_similarity base_height target_height)
         else Inr 0)"

definition weight_term :: "performer \<Rightarrow> performer \<Rightarrow> error + rat" where
  "weight_term base_performer target_performer =
     (let base_weight = get_default (weight base_performer) 0;
          target_weight = get_default (weight target_performer) 0
      in if base_weight > 0 \<and> target_weight > 0
         then weighted (1 / 10) (fixed_scale_similarity base_weight target_weight)
         else Inr 0)"

text \<open>\<^verbatim>\<open>similarity += term\<close>: the first block that raises ends the call.\<close>

definition add_term :: "error + rat \<Rightarrow> error + rat \<Rightarrow> error + rat" where
  "add_term similarity t =
     (case similarity of
        Inl e \<Rightarrow> Inl e
      | Inr s \<Rightarrow> (case t of Inl e \<Rightarrow> Inl e | Inr x \<Rightarrow> Inr (s + x)))"

definition calculate_similarity :: "performer \<Rightarrow> performer \<Rightarrow> error + rat" where
  "calculate_similarity base_performer target_performer =
     foldl add_term (Inr 0)
       [cup_to_bmi_term base_performer target_performer,
        o_counter_term base_performer target_performer,
        scene_count_term base_performer target_performer,
        band_size_term base_performer target_performer,
        cup_letter_term base_performer target_performer,
        volume_term base_performer target_performer,
        height_term base_performer target_performer,
        weight_term base_performer target_performer]"

subsection \<open>\<^verbatim>\<open>_get_popular_tags\<close> and \<^verbatim>\<open>_calculate_tag_similarity\<close>\<close>

text \<open>
  A \<^verbatim>\<open>Counter\<close> in insertion order. \<^verbatim>\<open>c[k] += w\<close> reads a missing key as 0 and
  then stores the sum, which creates the key.
\<close>

type_synonym counter = "(string \<times> int) list"

definition counter_add :: "string \<Rightarrow> int \<Rightarrow> counter \<Rightarrow> counter" where
  "counter_add k w c = AList.update k (get_default (map_of c k) 0 + w) c"

text \<open>
  \<^verbatim>\<open>most_common(n)\<close> is \<^verbatim>\<open>sorted(items, key=count, reverse=True)[:n]\<close>: a stable sort,
  so equal counts stay in insertion order.
\<close>

definition most_common :: "nat \<Rightarrow> counter \<Rightarrow> counter" where
  "most_common n c = take n (sort_key (\<lambda>p. - snd p) c)"

definition tag_names_of :: "tag list \<Rightarrow> string list" where
  \<comment> \<open>\<^verbatim>\<open>[t.get('name', '') for t in tags]\<close>\<close>
  "tag_names_of ts = map (\<lambda>t. get_default t []) ts"

definition count_scene_tags :: "int \<Rightarrow> tag list \<Rightarrow> counter \<Rightarrow> counter" where
  "count_scene_tags o_cnt ts c =
     fold (\<lambda>tag_name c. if tag_name \<noteq> [] then counter_add tag_name o_cnt c else c)
       (tag_names_of ts) c"

definition popular_tag_counter :: "scene list \<Rightarrow> int \<Rightarrow> counter" where
  "popular_tag_counter scenes min_o_counter =
     fold (\<lambda>scene c.
             let o_cnt = get_default (o_counter_scene scene) 0
             in if o_cnt \<ge> min_o_counter then count_scene_tags o_cnt (tags scene) c else c)
       scenes []"

definition get_popular_tags :: "scene list \<Rightarrow> int \<Rightarrow> nat \<Rightarrow> string list" where
  "get_popular_tags scenes min_o_counter top_n =
     map fst (most_common top_n (popular_tag_counter scenes min_o_counter))"

definition calculate_tag_similarity :: "string list \<Rightarrow> string list \<Rightarrow> rat" where
  "calculate_tag_similarity tags1 tags2 =
     (if tags1 = [] \<or> tags2 = [] then 0
      else
        (let intersection = card (set tags1 \<inter> set tags2);
             union = card (set tags1 \<union> set tags2)
         in if union = 0 then 0 else of_nat intersection / of_nat union))"

subsection \<open>The statistics collaborator and the module state\<close>

record cup_stat =
  cup_letter_stat :: "string option"
  avg_o_count :: "rat option"

text \<open>
  The payload of \<^verbatim>\<open>generate_all_stats\<close>, with the nested dictionaries flattened:
  \<open>top_volume_performers\<close> is \<^verbatim>\<open>volume_stats.top_volume_performers\<close>,
  \<open>cup_size_dataframe\<close> is \<^verbatim>\<open>cup_size_stats.cup_size_dataframe\<close> and
  \<open>cup_letter_o_stats\<close> is \<^verbatim>\<open>cup_size_o_counter_correlation.cup_letter_o_stats\<close>.
  A row of \<open>cup_size_dataframe\<close> is the list of its keys, all that the code looks at.
\<close>

record stats =
  top_o_counter_performers :: "performer list"
  top_volume_performers :: "performer list"
  cup_size_dataframe :: "string list list"
  cup_letter_o_stats :: "cup_stat list"

text \<open>
  \<^verbatim>\<open>pd.DataFrame(rows).empty\<close> for a list of row dictionaries: the frame has one row
  per dictionary and one column per key, and is empty when either count is zero.
\<close>

definition df_empty :: "string list list \<Rightarrow> bool" where
  "df_empty rows = (rows = [] \<or> concat rows = [])"

record candidate =
  id_candidate :: "string option"
  name_candidate :: string
  o_counter_candidate :: int
  similarity_candidate :: rat

datatype strategy = o_counter_similarity | volume_similarity | cup_size_popularity

record recommendation =
  id_recommendation :: string
  performer_name :: string
  performer_o_counter :: rat
  similar_performers :: "candidate list"
  recommendation_type :: strategy

record scene_recommendation =
  id_rec :: "string option"
  title_rec :: string
  performers_rec :: "string list"
  tags_rec :: "string list"
  tag_similarity :: rat
  similarity :: nat

type_synonym performer_cache = "(string \<times> recommendation) list"
type_synonym scene_cache = "(string \<times> scene_recommendation list) list"

text \<open>
  The module's attributes. \<open>generate_all_stats\<close> is what the call
  \<^verbatim>\<open>self.stats_module.generate_all_stats()\<close> does on the current snapshot: it returns a
  payload or raises.
\<close>

record state =
  performers_data :: "performer list"
  scenes_data :: "scene list"
  generate_all_stats :: "error + stats"
  performer_recommendation_cache :: performer_cache
  scene_recommendation_cache :: scene_cache
  recommendation_counter :: nat

definition rotate_list :: "nat \<Rightarrow> 'a list \<Rightarrow> 'a list" where
  \<comment> \<open>\<^verbatim>\<open>xs[i:] + xs[:i]\<close>\<close>
  "rotate_list i xs = drop i xs @ take i xs"

text \<open>
  \<^verbatim>\<open>random.shuffle(xs)\<close>: the argument \<open>perm\<close> gives, for the length of the list, the
  order in which the positions are read.
\<close>

definition shuffle :: "(nat \<Rightarrow> nat list) \<Rightarrow> 'a list \<Rightarrow> 'a list" where
  "shuffle perm xs = map (\<lambda>i. xs ! i) (filter (\<lambda>i. i < length xs) (perm (length xs)))"

subsection \<open>\<^verbatim>\<open>recommend_performers\<close>\<close>

type_synonym acc = "performer_cache \<times> recommendation list"

text \<open>
  \<^verbatim>\<open>self._performer_recommendation_cache[id] = recommendation\<close> followed by
  \<^verbatim>\<open>recommendations.append(recommendation)\<close>.
\<close>

definition store :: "recommendation \<Rightarrow> acc \<Rightarrow> acc" where
  "store r a = (AList.update (id_recommendation r) r (fst a), snd a @ [r])"

definition str_id :: "string option \<Rightarrow> string" where
  \<comment> \<open>\<^verbatim>\<open>p.get('id', '')\<close> inside an f-string\<close>
  "str_id v = get_default v []"

definition display_name :: "performer \<Rightarrow> string" where
  "display_name p = get_default (name p) ''Unknown''"

text \<open>Strategy 1: the inner loop over \<^verbatim>\<open>self.performers_data\<close>.\<close>

fun find_similar :: "performer \<Rightarrow> performer list \<Rightarrow> error + candidate list" where
  "find_similar base_performer [] = Inr []"
| "find_similar base_performer (target_performer # rest) =
     (if id_performer target_performer = id_performer base_performer
      then find_similar base_performer rest
      else if get_default (o_counter target_performer) 0 \<noteq> 0
      then find_similar base_performer rest
      else
        (case calculate_similarity base_performer target_performer of
           Inl e \<Rightarrow> Inl e
         | Inr sim \<Rightarrow>
             (case find_similar base_performer rest of
                Inl e \<Rightarrow> Inl e
              | Inr found \<Rightarrow>
                  Inr (if sim > 1 / 2
                       then \<lparr>id_candidate = id_performer target_performer,
                             name_candidate = display_name target_performer,
                             o_counter_candidate = get_default (o_counter target_performer) 0,
                             similarity_candidate = sim\<rparr> # found
                       else found))))"

definition by_similarity :: "candidate list \<Rightarrow> candidate list" where
  \<comment> \<open>\<^verbatim>\<open>xs.sort(key=lambda x: x['similarity'], reverse=True)\<close>\<close>
  "by_similarity xs = sort_key (\<lambda>c. - similarity_candidate c) xs"

text \<open>
  The strategies run inside one \<^verbatim>\<open>try\<close>. Each returns the cache and the list built so
  far, and the exception that stopped it, if any: what was stored before stays stored.
\<close>

fun o_counter_strategy ::
  "performer list \<Rightarrow> performer list \<Rightarrow> acc \<Rightarrow> acc \<times> error option" where
  "o_counter_strategy pd [] a = (a, None)"
| "o_counter_strategy pd (base_performer # seeds) a =
     (case find_similar base_performer pd of
        Inl e \<Rightarrow> (a, Some e)
      | Inr found \<Rightarrow>
          (let similar = by_similarity found
           in o_counter_strategy pd seeds
                (if similar \<noteq> []
                 then store \<lparr>id_recommendation = ''o_counter_'' @ str_id (id_performer base_performer),
                             performer_name = display_name base_performer,
                             performer_o_counter = of_int (get_default (o_counter base_performer) 0),
                             similar_performers = take 5 similar,
                             recommendation_type = o_counter_similarity\<rparr> a
                 else a)))"

text \<open>Strategy 2: the inner loop, with its own volume-only similarity.\<close>

fun find_volume_similar :: "rat \<Rightarrow> performer list \<Rightarrow> error + candidate list" where
  "find_volume_similar target_volume [] = Inr []"
| "find_volume_similar target_volume (p # rest) =
     (if get_default (o_counter p) 0 > 0 then find_volume_similar target_volume rest
      else
        (let performer_volume = get_default (volume_cc p) 0
         in if performer_volume > 0
            then
              (case py_truediv \<bar>performer_volume - target_volume\<bar>
                      (max target_volume performer_volume) of
                 Inl e \<Rightarrow> Inl e
               | Inr q \<Rightarrow>
                   (let volume_sim = max 0 (1 - q)
                    in case find_volume_similar target_volume rest of
                         Inl e \<Rightarrow> Inl e
                       | Inr found \<Rightarrow>
                           Inr (if volume_sim > 7 / 10
                                then \<lparr>id_candidate = id_performer p,
                                      name_candidate = display_name p,
                                      o_counter_candidate = 0,
                                      similarity_candidate = volume_sim\<rparr> # found
                                else found)))
            else find_volume_similar target_volume rest))"

fun volume_strategy ::
  "performer list \<Rightarrow> performer list \<Rightarrow> acc \<Rightarrow> acc \<times> error option" where
  "volume_strategy pd [] a = (a, None)"
| "volume_strategy pd (volume_performer # seeds) a =
     (if get_default (o_counter volume_performer) 0 > 0
         \<and> get_default (volume_cc volume_performer) 0 > 0
      then
        (case find_volume_similar (get_default (volume_cc volume_performer) 0) pd of
           Inl e \<Rightarrow> (a, Some e)
         | Inr found \<Rightarrow>
             (let similar = by_similarity found
              in volume_strategy pd seeds
                   (if similar \<noteq> []
                    then store \<lparr>id_recommendation = ''volume_'' @ str_id (id_performer volume_performer),
                                performer_name = display_name volume_performer,
                                performer_o_counter =
                                  of_int (get_default (o_counter volume_performer) 0),
                                similar_performers = take 5 similar,
                                recommendation_type = volume_similarity\<rparr> a
                    else a)))
      else volume_strategy pd seeds a)"

text \<open>
  Strategy 3, over the three cup letters with the highest average. \<open>rnd k\<close> is the
  permutation drawn for the shuffle of the \<open>k\<close>-th of them.
\<close>

definition cup_candidates :: "string \<Rightarrow> performer list \<Rightarrow> candidate list" where
  "cup_candidates letter pd =
     map (\<lambda>p. \<lparr>id_candidate = id_performer p,
                name_candidate = display_name p,
                o_counter_candidate = 0,
                similarity_candidate = 8 / 10\<rparr>)
       (filter (\<lambda>p. cup_letter p = Some letter \<and> get_default (o_counter p) 0 = 0) pd)"

fun cup_strategy ::
  "(nat \<Rightarrow> nat \<Rightarrow> nat list) \<Rightarrow> performer list \<Rightarrow> nat \<Rightarrow> cup_stat list \<Rightarrow> acc \<Rightarrow> acc" where
  "cup_strategy rnd pd k [] a = a"
| "cup_strategy rnd pd k (cs # rest) a =
     (let avg = get_default (avg_o_count cs) 0
      in if truthy_str (cup_letter_stat cs) \<and> avg > 0
         then
           (let letter = the (cup_letter_stat cs);
                shuffled = shuffle (rnd k) (cup_candidates letter pd)
            in cup_strategy rnd pd (Suc k) rest
                 (if shuffled \<noteq> []
                  then store \<lparr>id_recommendation = ''cup_'' @ letter,
                              performer_name = ''Cup-Groesse '' @ letter,
                              performer_o_counter = avg,
                              similar_performers = take 5 shuffled,
                              recommendation_type = cup_size_popularity\<rparr> a
                  else a))
         else cup_strategy rnd pd (Suc k) rest a)"

definition sorted_cup_stats :: "cup_stat list \<Rightarrow> cup_stat list" where
  "sorted_cup_stats cs = sort_key (\<lambda>x. - get_default (avg_o_count x) 0) cs"

text \<open>The body of the \<^verbatim>\<open>try\<close>, up to the final shuffle.\<close>

definition performer_try ::
  "(nat \<Rightarrow> nat \<Rightarrow> nat list) \<Rightarrow> state \<Rightarrow> acc \<times> error option" where
  "performer_try rnd s =
     (case generate_all_stats s of
        Inl e \<Rightarrow> ((performer_recommendation_cache s, []), Some e)
      | Inr st \<Rightarrow>
          (case o_counter_strategy (performers_data s) (top_o_counter_performers st)
                  (performer_recommendation_cache s, []) of
             (a1, Some e) \<Rightarrow> (a1, Some e)
           | (a1, None) \<Rightarrow>
               (case (if top_volume_performers st \<noteq> [] \<and> \<not> df_empty (cup_size_dataframe st)
                      then volume_strategy (performers_data s) (top_volume_performers st) a1
                      else (a1, None)) of
                  (a2, Some e) \<Rightarrow> (a2, Some e)
                | (a2, None) \<Rightarrow>
                    (if cup_letter_o_stats st \<noteq> []
                     then cup_strategy rnd (performers_data s) 0
                            (take 3 (sorted_cup_stats (cup_letter_o_stats st))) a2
                     else a2, None))))"

definition recommend_performers ::
  "(nat \<Rightarrow> nat \<Rightarrow> nat list) \<Rightarrow> state \<Rightarrow> recommendation list \<times> state" where
  "recommend_performers rnd s =
     (let s1 = s\<lparr>recommendation_counter := recommendation_counter s + 1\<rparr>
      in if performer_recommendation_cache s1 \<noteq> [] then
           (let cached_recommendations = map snd (performer_recommendation_cache s1);
                rotation_index = recommendation_counter s1 mod length cached_recommendations
            in (take 10 (rotate_list rotation_index cached_recommendations), s1))
         else if performers_data s1 = [] then ([], s1)
         else
           (case performer_try rnd s1 of
              (a, Some e) \<Rightarrow> ([], s1\<lparr>performer_recommendation_cache := fst a\<rparr>)
            | (a, None) \<Rightarrow>
                (take 10 (shuffle (rnd 3) (snd a)),
                 s1\<lparr>performer_recommendation_cache := fst a\<rparr>)))"

subsection \<open>\<^verbatim>\<open>recommend_scenes\<close>\<close>

definition empty_recommendations :: scene_cache where
  "empty_recommendations =
     [(''favorite_performer_scenes'', []),
      (''non_favorite_performer_scenes'', []),
      (''recommended_performer_scenes'', []),
      (''similar_tag_scenes'', [])]"

definition high_o_counter_tags :: "scene list \<Rightarrow> string list" where
  "high_o_counter_tags scenes =
     concat (map (\<lambda>scene. tag_names_of (tags scene))
               (filter (\<lambda>scene. get_default (o_counter_scene scene) 0 \<ge> 3) scenes))"

definition most_common_tags :: "scene list \<Rightarrow> string list" where
  \<comment> \<open>\<^verbatim>\<open>[tag for tag, _ in Counter(high_o_counter_tags).most_common(20)]\<close>\<close>
  "most_common_tags scenes =
     map fst (most_common 20 (fold (\<lambda>t c. counter_add t 1 c) (high_o_counter_tags scenes) []))"

definition has_favorite_performer :: "scene \<Rightarrow> bool" where
  "has_favorite_performer scene =
     list_ex (\<lambda>p. get_default (favorite p) False) (performers scene)"

definition performer_names :: "scene \<Rightarrow> string list" where
  "performer_names scene = map (\<lambda>p. get_default (name p) []) (performers scene)"

definition has_top_performer :: "string list \<Rightarrow> scene \<Rightarrow> bool" where
  "has_top_performer top_performer_names scene =
     list_ex (\<lambda>n. n \<in> set top_performer_names) (performer_names scene)"

definition scene_record :: "string list \<Rightarrow> string list \<Rightarrow> scene \<Rightarrow> scene_recommendation" where
  "scene_record popular_tags common_tags scene =
     \<lparr>id_rec = id_scene scene,
      title_rec = get_default (title scene) ''Unknown'',
      performers_rec = performer_names scene,
      tags_rec = tag_names_of (tags scene),
      tag_similarity = calculate_tag_similarity (tag_names_of (tags scene)) common_tags,
      similarity = card (set (tag_names_of (tags scene)) \<inter> set popular_tags)\<rparr>"

text \<open>The \<^verbatim>\<open>if/elif\<close> chain that picks the category of an unseen scene.\<close>

definition category_of :: "string list \<Rightarrow> string list \<Rightarrow> scene \<Rightarrow> string" where
  "category_of top_performer_names common_tags scene =
     (if has_favorite_performer scene then ''favorite_performer_scenes''
      else if has_top_performer top_performer_names scene then ''recommended_performer_scenes''
      else if calculate_tag_similarity (tag_names_of (tags scene)) common_tags > 3 / 10
      then ''similar_tag_scenes''
      else ''non_favorite_performer_scenes'')"

definition process_scene ::
  "string list \<Rightarrow> string list \<Rightarrow> string list \<Rightarrow> scene \<Rightarrow> scene_cache \<Rightarrow> scene_cache" where
  "process_scene popular_tags top_performer_names common_tags scene recommendations =
     (if get_default (o_counter_scene scene) 0 \<noteq> 0 then recommendations
      else AList.map_entry (category_of top_performer_names common_tags scene)
             (\<lambda>l. l @ [scene_record popular_tags common_tags scene]) recommendations)"

definition sort_and_limit ::
  "string \<times> scene_recommendation list \<Rightarrow> string \<times> scene_recommendation list" where
  "sort_and_limit entry =
     (if fst entry = ''similar_tag_scenes''
      then (fst entry, take 15 (sort_key (\<lambda>x. - tag_similarity x) (snd entry)))
      else (fst entry, take 10 (sort_key (\<lambda>x. - int (similarity x)) (snd entry))))"

definition rotate_category ::
  "nat \<Rightarrow> string \<times> scene_recommendation list \<Rightarrow> string \<times> scene_recommendation list" where
  "rotate_category counter entry =
     (if snd entry \<noteq> []
      then (fst entry, rotate_list (counter mod length (snd entry)) (snd entry))
      else entry)"

definition scene_try :: "state \<Rightarrow> stats \<Rightarrow> scene_cache" where
  "scene_try s st =
     (let popular_tags = get_popular_tags (scenes_data s) 3 20;
          top_performer_names =
            map (\<lambda>p. get_default (name p) []) (top_o_counter_performers st);
          common_tags = most_common_tags (scenes_data s)
      in map sort_and_limit
           (fold (process_scene popular_tags top_performer_names common_tags)
              (scenes_data s) empty_recommendations))"

definition recommend_scenes :: "state \<Rightarrow> scene_cache \<times> state" where
  "recommend_scenes s =
     (let s1 = s\<lparr>recommendation_counter := recommendation_counter s + 1\<rparr>
      in if scene_recommendation_cache s1 \<noteq> [] then
           (map (rotate_category (recommendation_counter s1)) (scene_recommendation_cache s1),
            s1)
         else if scenes_data s1 = [] then ([], s1)
         else
           (case generate_all_stats s1 of
              Inl e \<Rightarrow> ([], s1)
            | Inr st \<Rightarrow>
                (let recommendations = scene_try s1 st
                 in (recommendations, s1\<lparr>scene_recommendation_cache := recommendations\<rparr>))))"

subsection \<open>Auxiliary notions for the statements\<close>

text \<open>A computation returned, and what it returned is not negative.\<close>

definition nonneg_ok :: "error + rat \<Rightarrow> bool" where
  "nonneg_ok r = (case r of Inl e \<Rightarrow> False | Inr x \<Rightarrow> 0 \<le> x)"

text \<open>
  The weight that the specification gives a tag: every occurrence of the tag in a scene
  whose \<^verbatim>\<open>o_counter\<close> reaches the threshold adds that scene's \<^verbatim>\<open>o_counter\<close>.
  \<open>weighted_tag_names\<close> lists the non-empty tag names of those scenes.
\<close>

definition qualifies :: "int \<Rightarrow> scene \<Rightarrow> bool" where
  "qualifies min_o_counter scene = (min_o_counter \<le> get_default (o_counter_scene scene) 0)"

definition tag_weight :: "scene list \<Rightarrow> int \<Rightarrow> string \<Rightarrow> int" where
  "tag_weight scenes min_o_counter t =
     sum_list (map (\<lambda>scene. get_default (o_counter_scene scene) 0
                               * int (count_list (tag_names_of (tags scene)) t))
                 (filter (qualifies min_o_counter) scenes))"

definition weighted_tag_names :: "scene list \<Rightarrow> int \<Rightarrow> string list" where
  "weighted_tag_names scenes min_o_counter =
     filter (\<lambda>t. t \<noteq> [])
       (concat (map (\<lambda>scene. tag_names_of (tags scene)) (filter (qualifies min_o_counter) scenes)))"

text \<open>Reading a counter, and the body of the loop over the scenes.\<close>

definition cnt :: "counter \<Rightarrow> string \<Rightarrow> int" where
  "cnt c t = get_default (map_of c t) 0"

definition scene_step :: "int \<Rightarrow> scene \<Rightarrow> counter \<Rightarrow> counter" where
  "scene_step m scene c =
     (let o_cnt = get_default (o_counter_scene scene) 0
      in if o_cnt \<ge> m then count_scene_tags o_cnt (tags scene) c else c)"

text \<open>
  Notions for the statements about \<^verbatim>\<open>recommend_scenes\<close>. A scene is unseen when its
  \<^verbatim>\<open>o_counter\<close> is 0. \<open>scene_category\<close> is the category the \<^verbatim>\<open>if/elif\<close> chain picks
  for a scene of the snapshot, \<open>scene_record_of\<close> the record built for it, and
  \<open>assigned_to\<close> lists, in snapshot order, the records of the unseen scenes of one
  category. \<open>category_limit\<close> is the sorting and cutting that the last loop applies
  to one category, and \<open>cap\<close> the length it cuts to.
\<close>

definition unseen :: "scene \<Rightarrow> bool" where
  "unseen scene = (get_default (o_counter_scene scene) 0 = 0)"

definition category_limit :: "string \<Rightarrow> scene_recommendation list \<Rightarrow> scene_recommendation list" where
  "category_limit category recs = snd (sort_and_limit (category, recs))"

definition assigned :: "string list \<Rightarrow> string list \<Rightarrow> string list \<Rightarrow> scene list \<Rightarrow> string \<Rightarrow> scene_recommendation list" where
  "assigned popular_tags top_performer_names common_tags scenes category =
     map (scene_record popular_tags common_tags)
       (filter (\<lambda>scene. unseen scene \<and> category_of top_performer_names common_tags scene = category)
          scenes)"

definition popular_tags_of :: "state \<Rightarrow> string list" where
  "popular_tags_of s = get_popular_tags (scenes_data s) 3 20"

definition top_performer_names_of :: "stats \<Rightarrow> string list" where
  "top_performer_names_of st = map (\<lambda>p. get_default (name p) []) (top_o_counter_performers st)"

definition scene_category :: "state \<Rightarrow> stats \<Rightarrow> scene \<Rightarrow> string" where
  "scene_category s st scene =
     category_of (top_performer_names_of st) (most_common_tags (scenes_data s)) scene"

definition scene_record_of :: "state \<Rightarrow> scene \<Rightarrow> scene_recommendation" where
  "scene_record_of s scene =
     scene_record (popular_tags_of s) (most_common_tags (scenes_data s)) scene"

definition assigned_to :: "state \<Rightarrow> stats \<Rightarrow> string \<Rightarrow> scene_recommendation list" where
  "assigned_to s st category =
     map (scene_record_of s)
       (filter (\<lambda>scene. unseen scene \<and> scene_category s st scene = category) (scenes_data s))"

definition category_names :: "string list" where
  "category_names = map fst empty_recommendations"



definition pool :: "state \<Rightarrow> recommendation list" where
  "pool s = map snd (performer_recommendation_cache s)"



subsection \<open>Example inputs\<close>

text \<open>Two performers that carry a cup-to-BMI ratio and no \<^verbatim>\<open>bmi\<close>.\<close>

definition c7_base :: performer where
  "c7_base = \<lparr>id_performer = Some ''1'', name = Some ''A'', favorite = None, bmi = None,
     cup_to_bmi = Some 1, o_counter = None, scene_count = None, band_size = None,
     cup_letter = None, volume_cc = None, height_cm = None, weight = None\<rparr>"

definition c7_target :: performer where
  "c7_target = \<lparr>id_performer = Some ''2'', name = Some ''B'', favorite = None, bmi = None,
     cup_to_bmi = Some 2, o_counter = None, scene_count = None, band_size = None,
     cup_letter = None, volume_cc = None, height_cm = None, weight = None\<rparr>"

text \<open>The two scenes of the \<^verbatim>\<open>PopularTags\<close> scenario.\<close>

definition c9_scenes :: "scene list" where
  "c9_scenes =
     [\<lparr>id_scene = Some ''1'', title = None, performers = [], tags = [Some ''x'', Some ''y''],
        o_counter_scene = Some 5\<rparr>,
      \<lparr>id_scene = Some ''2'', title = None, performers = [], tags = [Some ''x''],
        o_counter_scene = Some 1\<rparr>]"

text \<open>Snapshots for the statements about \<^verbatim>\<open>recommend_scenes\<close>.\<close>

definition blank_performer :: performer where
  "blank_performer = \<lparr>id_performer = None, name = None, favorite = None, bmi = None,
     cup_to_bmi = None, o_counter = None, scene_count = None, band_size = None,
     cup_letter = None, volume_cc = None, height_cm = None, weight = None\<rparr>"

definition empty_stats :: stats where
  "empty_stats = \<lparr>top_o_counter_performers = [], top_volume_performers = [],
     cup_size_dataframe = [], cup_letter_o_stats = []\<rparr>"

definition c2_seen :: scene where
  "c2_seen = \<lparr>id_scene = Some ''A'', title = Some ''seen once'', performers = [],
     tags = [Some ''x''], o_counter_scene = Some 1\<rparr>"

definition c2_unseen :: scene where
  "c2_unseen = \<lparr>id_scene = Some ''B'', title = Some ''unseen'', performers = [],
     tags = [Some ''x''], o_counter_scene = Some 0\<rparr>"

definition c2_state :: state where
  "c2_state = \<lparr>performers_data = [], scenes_data = [c2_seen, c2_unseen],
     generate_all_stats = Inr empty_stats, performer_recommendation_cache = [],
     scene_recommendation_cache = [], recommendation_counter = 0\<rparr>"




definition c10_state :: state where
  "c10_state = \<lparr>performers_data = [], scenes_data = [],
     generate_all_stats = Inr empty_stats, performer_recommendation_cache = [],
     scene_recommendation_cache = [], recommendation_counter = 0\<rparr>"

text \<open>
  Inputs for the statements about \<^verbatim>\<open>recommend_performers\<close>: a shuffle that leaves
  every list as it is, a snapshot whose statistics call raises, and a snapshot with one
  unseen performer and eleven volume seeds similar to it, with and without rows in
  \<^verbatim>\<open>cup_size_dataframe\<close>. \<open>c6_warm\<close> is the state after the first call on it.
\<close>

definition identity_shuffle :: "nat \<Rightarrow> nat \<Rightarrow> nat list" where
  "identity_shuffle k n = [0..<n]"


definition c6_ids :: "string list" where
  "c6_ids = [''p01'', ''p02'', ''p03'', ''p04'', ''p05'', ''p06'', ''p07'', ''p08'', ''p09'',
             ''p10'', ''p11'']"

definition c6_candidate :: performer where
  "c6_candidate = blank_performer\<lparr>id_performer := Some ''c1'', name := Some ''Cand'',
     volume_cc := Some 400\<rparr>"

definition c6_seed :: "string \<Rightarrow> performer" where
  "c6_seed i = blank_performer\<lparr>id_performer := Some i, name := Some ''Seed'',
     o_counter := Some 5, volume_cc := Some 400\<rparr>"

definition c6_stats :: "string list list \<Rightarrow> stats" where
  "c6_stats df = \<lparr>top_o_counter_performers = [], top_volume_performers = map c6_seed c6_ids,
     cup_size_dataframe = df, cup_letter_o_stats = []\<rparr>"

definition c6_state :: state where
  "c6_state = \<lparr>performers_data = [c6_candidate], scenes_data = [],
     generate_all_stats = Inr (c6_stats [[''name'']]), performer_recommendation_cache = [],
     scene_recommendation_cache = [], recommendation_counter = 0\<rparr>"


definition c6_record :: "string \<Rightarrow> recommendation" where
  "c6_record i = \<lparr>id_recommendation = ''volume_'' @ i, performer_name = ''Seed'',
     performer_o_counter = 5,
     similar_performers = [\<lparr>id_candidate = Some ''c1'', name_candidate = ''Cand'',
                             o_counter_candidate = 0, similarity_candidate = 1\<rparr>],
     recommendation_type = volume_similarity\<rparr>"

definition c6_cache :: performer_cache where
  "c6_cache = map (\<lambda>i. (''volume_'' @ i, c6_record i)) c6_ids"

definition c6_warm :: state where
  "c6_warm = c6_state\<lparr>recommendation_counter := 1, performer_recommendation_cache := c6_cache\<rparr>"


section \<open>Properties of \<^verbatim>\<open>_calculate_similarity\<close>\<close>

lemma nonneg_ok_zero: "nonneg_ok (Inr 0)"
  by (simp add: nonneg_ok_def)

lemma nonneg_ok_iff: "nonneg_ok r \<longleftrightarrow> (\<exists>x. r = Inr x \<and> 0 \<le> x)"
  by (cases r) (simp_all add: nonneg_ok_def)

lemma ratio_similarity_ok: "max a b \<noteq> 0 \<Longrightarrow> nonneg_ok (ratio_similarity a b)"
  by (simp add: ratio_similarity_def py_truediv_def nonneg_ok_def)

lemma weighted_ok: "0 \<le> w \<Longrightarrow> nonneg_ok r \<Longrightarrow> nonneg_ok (weighted w r)"
  by (cases r) (simp_all add: weighted_def nonneg_ok_def)

lemma fixed_scale_ok: "nonneg_ok (fixed_scale_similarity a b)"
  by (simp add: fixed_scale_similarity_def py_truediv_def nonneg_ok_def)

lemma cup_to_bmi_term_ok: "nonneg_ok (cup_to_bmi_term b t)"
  unfolding cup_to_bmi_term_def Let_def
  by (auto intro!: weighted_ok ratio_similarity_ok simp: max_def nonneg_ok_zero split: if_splits)

lemma o_counter_term_ok: "nonneg_ok (o_counter_term b t)"
  unfolding o_counter_term_def Let_def
  by (auto intro!: weighted_ok ratio_similarity_ok simp: max_def nonneg_ok_zero split: if_splits)

lemma scene_count_term_ok: "nonneg_ok (scene_count_term b t)"
  unfolding scene_count_term_def Let_def
  by (auto intro!: weighted_ok ratio_similarity_ok simp: max_def nonneg_ok_zero split: if_splits)

lemma volume_term_ok: "nonneg_ok (volume_term b t)"
  unfolding volume_term_def Let_def
  by (auto intro!: weighted_ok ratio_similarity_ok simp: max_def nonneg_ok_zero split: if_splits)

lemma height_term_ok: "nonneg_ok (height_term b t)"
  unfolding height_term_def Let_def
  by (auto intro!: weighted_ok fixed_scale_ok simp: nonneg_ok_zero)

lemma weight_term_ok: "nonneg_ok (weight_term b t)"
  unfolding weight_term_def Let_def
  by (auto intro!: weighted_ok fixed_scale_ok simp: nonneg_ok_zero)

text \<open>Inside the two \<^verbatim>\<open>try\<close> blocks only the two caught exceptions can arise.\<close>

lemma band_try_cases:
  "band_try x y = Inl ValueError \<or> band_try x y = Inl ZeroDivisionError
     \<or> nonneg_ok (band_try x y)"
  by (auto simp: band_try_def py_int_def py_truediv_def nonneg_ok_def
           split: band.splits option.splits sum.splits)

lemma cup_try_cases:
  "cup_try x y = Inl ValueError \<or> cup_try x y = Inl ZeroDivisionError
     \<or> nonneg_ok (cup_try x y)"
  by (auto simp: cup_try_def str_index_def py_truediv_def nonneg_ok_def
           split: option.splits sum.splits)

lemma except_value_zero_ok:
  "r = Inl ValueError \<or> r = Inl ZeroDivisionError \<or> nonneg_ok r
     \<Longrightarrow> nonneg_ok (except_value_zero r)"
  by (auto simp: except_value_zero_def nonneg_ok_def split: sum.splits error.splits)

lemma band_size_term_ok: "nonneg_ok (band_size_term b t)"
  unfolding band_size_term_def
  by (auto intro!: except_value_zero_ok band_try_cases simp: nonneg_ok_zero)

lemma cup_letter_term_ok: "nonneg_ok (cup_letter_term b t)"
  unfolding cup_letter_term_def
  by (auto intro!: except_value_zero_ok cup_try_cases simp: nonneg_ok_zero)

lemma add_term_ok: "nonneg_ok s \<Longrightarrow> nonneg_ok t \<Longrightarrow> nonneg_ok (add_term s t)"
  by (cases s; cases t) (simp_all add: add_term_def nonneg_ok_def)

lemma calculate_similarity_ok: "nonneg_ok (calculate_similarity b t)"
  unfolding calculate_similarity_def foldl.simps
  by (intro add_term_ok cup_to_bmi_term_ok o_counter_term_ok scene_count_term_ok
        band_size_term_ok cup_letter_term_ok volume_term_ok height_term_ok weight_term_ok
        nonneg_ok_zero)


subsection \<open>The cup-to-BMI term\<close>

lemma max_nonzero: "(a::rat) \<noteq> 0 \<Longrightarrow> b \<noteq> 0 \<Longrightarrow> max a b \<noteq> 0"
  by (simp add: max_def)

lemma cup_to_bmi_term_value:
  "cup_to_bmi_term b t =
     Inr (if truthy_num (bmi b) \<and> truthy_num (bmi t)
             \<and> get_default (cup_to_bmi b) 0 \<noteq> 0 \<and> get_default (cup_to_bmi t) 0 \<noteq> 0
          then 3 / 10 * (1 - min (\<bar>get_default (cup_to_bmi b) 0 - get_default (cup_to_bmi t) 0\<bar>
                                 / max (get_default (cup_to_bmi b) 0) (get_default (cup_to_bmi t) 0)) 1)
          else 0)"
  by (simp add: cup_to_bmi_term_def Let_def weighted_def ratio_similarity_def py_truediv_def
        max_nonzero)

lemma cup_to_bmi_term_absent: "cup_to_bmi_term (b\<lparr>cup_to_bmi := None\<rparr>) t = Inr 0"
  by (simp add: cup_to_bmi_term_def get_default_def)

lemma other_terms_ignore_cup_to_bmi:
  "o_counter_term (b\<lparr>cup_to_bmi := v\<rparr>) t = o_counter_term b t"
  "scene_count_term (b\<lparr>cup_to_bmi := v\<rparr>) t = scene_count_term b t"
  "band_size_term (b\<lparr>cup_to_bmi := v\<rparr>) t = band_size_term b t"
  "cup_letter_term (b\<lparr>cup_to_bmi := v\<rparr>) t = cup_letter_term b t"
  "volume_term (b\<lparr>cup_to_bmi := v\<rparr>) t = volume_term b t"
  "height_term (b\<lparr>cup_to_bmi := v\<rparr>) t = height_term b t"
  "weight_term (b\<lparr>cup_to_bmi := v\<rparr>) t = weight_term b t"
  by (simp_all add: o_counter_term_def scene_count_term_def band_size_term_def
        cup_letter_term_def volume_term_def height_term_def weight_term_def)

lemma calculate_similarity_sum:
  assumes "cup_to_bmi_term b t = Inr v1" "o_counter_term b t = Inr v2"
    "scene_count_term b t = Inr v3" "band_size_term b t = Inr v4"
    "cup_letter_term b t = Inr v5" "volume_term b t = Inr v6"
    "height_term b t = Inr v7" "weight_term b t = Inr v8"
  shows "calculate_similarity b t = Inr (v1 + v2 + v3 + v4 + v5 + v6 + v7 + v8)"
  using assms by (simp add: calculate_similarity_def add_term_def)

lemma calculate_similarity_eval:
  "calculate_similarity b t =
     add_term (add_term (add_term (add_term (add_term (add_term (add_term (add_term (Inr 0)
       (cup_to_bmi_term b t)) (o_counter_term b t)) (scene_count_term b t))
       (band_size_term b t)) (cup_letter_term b t)) (volume_term b t))
       (height_term b t)) (weight_term b t)"
  by (simp add: calculate_similarity_def)

lemmas term_defs = cup_to_bmi_term_def o_counter_term_def scene_count_term_def
  band_size_term_def cup_letter_term_def volume_term_def height_term_def weight_term_def
  add_term_def weighted_def ratio_similarity_def fixed_scale_similarity_def py_truediv_def
  get_default_def truthy_num_def truthy_str_def truthy_band_def except_value_zero_def

text \<open>
  C7, as stated, fails: whether the cup-to-BMI term contributes depends on a third
  attribute, \<^verbatim>\<open>bmi\<close>. Two performers with the ratios 1 and 2 and no \<^verbatim>\<open>bmi\<close> score 0,
  although both ratios are present and non-zero and the stated term is 3/20; once both
  carry a \<^verbatim>\<open>bmi\<close>, the very same ratios contribute 3/20.
\<close>

theorem cup_to_bmi_needs_bmi_counterexample:
  "cup_to_bmi c7_base = Some 1 \<and> cup_to_bmi c7_target = Some 2
   \<and> calculate_similarity c7_base c7_target = Inr 0
   \<and> (3 / 10 * (1 - min (\<bar>1 - 2\<bar> / max \<bar>1\<bar> \<bar>2\<bar>) 1) :: rat) = 3 / 20
   \<and> calculate_similarity (c7_base\<lparr>bmi := Some 20\<rparr>) (c7_target\<lparr>bmi := Some 22\<rparr>) = Inr (3 / 20)"
  by (simp add: calculate_similarity_eval term_defs c7_base_def c7_target_def)

text \<open>
  C7, amended. The contribution of the cup-to-BMI term to the score is the difference
  between the score and the score of the same pair with the base performer's
  \<^verbatim>\<open>cup_to_bmi\<close> removed. It is \<open>0.3 * (1 - min(|a-b| / max(a,b), 1))\<close> when both
  performers have a non-zero \<^verbatim>\<open>bmi\<close> and both ratios \<open>a\<close>, \<open>b\<close> are present and
  non-zero, and 0 otherwise. (For positive ratios \<open>max(a,b)\<close> is \<open>max(|a|,|b|)\<close>.)
\<close>

theorem cup_to_bmi_contribution:
  "\<exists>s s0. calculate_similarity b t = Inr s
     \<and> calculate_similarity (b\<lparr>cup_to_bmi := None\<rparr>) t = Inr s0
     \<and> s - s0 =
         (if truthy_num (bmi b) \<and> truthy_num (bmi t)
             \<and> get_default (cup_to_bmi b) 0 \<noteq> 0 \<and> get_default (cup_to_bmi t) 0 \<noteq> 0
          then 3 / 10 * (1 - min (\<bar>get_default (cup_to_bmi b) 0 - get_default (cup_to_bmi t) 0\<bar>
                                 / max (get_default (cup_to_bmi b) 0) (get_default (cup_to_bmi t) 0)) 1)
          else 0)"
proof -
  obtain v2 v3 v4 v5 v6 v7 v8 where v:
    "o_counter_term b t = Inr v2" "scene_count_term b t = Inr v3"
    "band_size_term b t = Inr v4" "cup_letter_term b t = Inr v5"
    "volume_term b t = Inr v6" "height_term b t = Inr v7" "weight_term b t = Inr v8"
    using o_counter_term_ok [of b t] scene_count_term_ok [of b t] band_size_term_ok [of b t]
      cup_letter_term_ok [of b t] volume_term_ok [of b t] height_term_ok [of b t]
      weight_term_ok [of b t]
    unfolding nonneg_ok_iff by blast
  let ?v1 = "if truthy_num (bmi b) \<and> truthy_num (bmi t)
             \<and> get_default (cup_to_bmi b) 0 \<noteq> 0 \<and> get_default (cup_to_bmi t) 0 \<noteq> 0
          then 3 / 10 * (1 - min (\<bar>get_default (cup_to_bmi b) 0 - get_default (cup_to_bmi t) 0\<bar>
                                 / max (get_default (cup_to_bmi b) 0) (get_default (cup_to_bmi t) 0)) 1)
          else (0::rat)"
  have s: "calculate_similarity b t = Inr (?v1 + v2 + v3 + v4 + v5 + v6 + v7 + v8)"
    by (rule calculate_similarity_sum [OF cup_to_bmi_term_value v])
  have s0: "calculate_similarity (b\<lparr>cup_to_bmi := None\<rparr>) t
              = Inr (0 + v2 + v3 + v4 + v5 + v6 + v7 + v8)"
    by (rule calculate_similarity_sum [OF cup_to_bmi_term_absent])
       (simp_all only: other_terms_ignore_cup_to_bmi v)
  show ?thesis
    by (simp add: s s0)
qed

theorem cup_to_bmi_contribution_witness:
  "\<exists>s s0. calculate_similarity (c7_base\<lparr>bmi := Some 20\<rparr>) (c7_target\<lparr>bmi := Some 22\<rparr>) = Inr s
     \<and> calculate_similarity (c7_base\<lparr>bmi := Some 20, cup_to_bmi := None\<rparr>)
           (c7_target\<lparr>bmi := Some 22\<rparr>) = Inr s0
     \<and> s - s0 = 3 / 20"
  using cup_to_bmi_contribution [of "c7_base\<lparr>bmi := Some 20\<rparr>" "c7_target\<lparr>bmi := Some 22\<rparr>"]
  by (simp add: c7_base_def c7_target_def truthy_num_def get_default_def)

section \<open>Properties of \<^verbatim>\<open>_get_popular_tags\<close>\<close>

lemma map_of_counter_add:
  "map_of (counter_add k w c) = (map_of c)(k \<mapsto> get_default (map_of c k) 0 + w)"
  by (simp add: counter_add_def update_conv')

lemma keys_counter_add: "fst ` set (counter_add k w c) = insert k (fst ` set c)"
  by (simp add: counter_add_def dom_update)

lemma distinct_counter_add:
  "distinct (map fst c) \<Longrightarrow> distinct (map fst (counter_add k w c))"
  by (simp add: counter_add_def distinct_update)

lemma cnt_counter_add: "cnt (counter_add k w c) t = (if t = k then cnt c k + w else cnt c t)"
  by (simp add: cnt_def map_of_counter_add get_default_def)

lemma fold_tags_cnt:
  "cnt (fold (\<lambda>tag_name c. if tag_name \<noteq> [] then counter_add tag_name w c else c) ns c) t
     = cnt c t + (if t \<noteq> [] then w * int (count_list ns t) else 0)"
  by (induction ns arbitrary: c) (auto simp: cnt_counter_add algebra_simps)

lemma fold_tags_keys:
  "fst ` set (fold (\<lambda>tag_name c. if tag_name \<noteq> [] then counter_add tag_name w c else c) ns c)
     = fst ` set c \<union> {t \<in> set ns. t \<noteq> []}"
  by (induction ns arbitrary: c) (auto simp: keys_counter_add)

lemma fold_tags_distinct:
  "distinct (map fst c) \<Longrightarrow>
   distinct (map fst (fold (\<lambda>tag_name c. if tag_name \<noteq> [] then counter_add tag_name w c else c) ns c))"
  by (induction ns arbitrary: c) (auto simp: distinct_counter_add)

lemma scene_step_cnt:
  "cnt (scene_step m scene c) t
     = cnt c t + (if t \<noteq> [] then tag_weight [scene] m t else 0)"
  by (simp add: scene_step_def Let_def count_scene_tags_def fold_tags_cnt tag_weight_def
        qualifies_def)

lemma tag_weight_Cons:
  "tag_weight (scene # scenes) m t = tag_weight [scene] m t + tag_weight scenes m t"
  by (simp add: tag_weight_def)

lemma tag_weight_Nil: "tag_weight [] m t = 0"
  by (simp add: tag_weight_def)

lemma scene_step_keys:
  "fst ` set (scene_step m scene c) = fst ` set c \<union> set (weighted_tag_names [scene] m)"
  by (auto simp: scene_step_def Let_def count_scene_tags_def fold_tags_keys
        weighted_tag_names_def qualifies_def)

lemma weighted_tag_names_Cons:
  "set (weighted_tag_names (scene # scenes) m)
     = set (weighted_tag_names [scene] m) \<union> set (weighted_tag_names scenes m)"
  by (auto simp: weighted_tag_names_def)

lemma scene_step_distinct:
  "distinct (map fst c) \<Longrightarrow> distinct (map fst (scene_step m scene c))"
  by (simp add: scene_step_def Let_def count_scene_tags_def fold_tags_distinct)

lemma fold_scenes_cnt:
  "cnt (fold (scene_step m) scenes c) t = cnt c t + (if t \<noteq> [] then tag_weight scenes m t else 0)"
proof (induction scenes arbitrary: c)
  case Nil
  show ?case by (simp add: tag_weight_Nil)
next
  case (Cons scene scenes)
  show ?case
    by (simp add: Cons.IH scene_step_cnt tag_weight_Cons [of scene scenes])
qed

lemma fold_scenes_keys:
  "fst ` set (fold (scene_step m) scenes c) = fst ` set c \<union> set (weighted_tag_names scenes m)"
proof (induction scenes arbitrary: c)
  case Nil
  show ?case by (simp add: weighted_tag_names_def)
next
  case (Cons scene scenes)
  show ?case
    by (simp add: Cons.IH scene_step_keys weighted_tag_names_Cons [of scene scenes] Un_assoc)
qed

lemma fold_scenes_distinct:
  "distinct (map fst c) \<Longrightarrow> distinct (map fst (fold (scene_step m) scenes c))"
  by (induction scenes arbitrary: c) (simp_all add: scene_step_distinct)

lemma popular_tag_counter_fold:
  "popular_tag_counter scenes m = fold (scene_step m) scenes []"
  by (simp add: popular_tag_counter_def scene_step_def [abs_def])

lemma popular_tag_counter_keys:
  "fst ` set (popular_tag_counter scenes m) = set (weighted_tag_names scenes m)"
  by (simp add: popular_tag_counter_fold fold_scenes_keys)

lemma popular_tag_counter_distinct: "distinct (map fst (popular_tag_counter scenes m))"
  by (simp add: popular_tag_counter_fold fold_scenes_distinct)

lemma popular_tag_counter_weight:
  assumes "(t, w) \<in> set (popular_tag_counter scenes m)"
  shows "w = tag_weight scenes m t"
proof -
  have "map_of (popular_tag_counter scenes m) t = Some w"
    using assms popular_tag_counter_distinct by simp
  then have "cnt (popular_tag_counter scenes m) t = w"
    by (simp add: cnt_def get_default_def)
  moreover have "t \<noteq> []"
    using assms popular_tag_counter_keys [of scenes m]
    by (force simp: weighted_tag_names_def)
  moreover have "cnt [] t = 0"
    by (simp add: cnt_def get_default_def)
  ultimately show ?thesis
    using fold_scenes_cnt [of m scenes "[]" t]
    by (simp add: popular_tag_counter_fold)
qed

lemma most_common_sorted: "sorted (map (\<lambda>p. - snd p) (most_common n c))"
proof -
  have "sorted (take n (map (\<lambda>p. - snd p) (sort_key (\<lambda>p. - snd p) c)))"
    by (rule sorted_wrt_take) (rule sorted_sort_key)
  then show ?thesis by (simp add: most_common_def take_map)
qed

lemma most_common_rest:
  assumes "p \<in> set (most_common n c)" "q \<in> set c" "q \<notin> set (most_common n c)"
  shows "snd q \<le> snd p"
proof -
  let ?s = "sort_key (\<lambda>p. - snd p) c"
  have "sorted (map (\<lambda>p. - snd p) (take n ?s) @ map (\<lambda>p. - snd p) (drop n ?s))"
    by (simp only: map_append [symmetric] append_take_drop_id sorted_sort_key)
  then have "\<forall>x\<in>set (map (\<lambda>p. - snd p) (take n ?s)).
               \<forall>y\<in>set (map (\<lambda>p. - snd p) (drop n ?s)). x \<le> y"
    unfolding sorted_append by blast
  then have *: "\<forall>x\<in>set (take n ?s). \<forall>y\<in>set (drop n ?s). snd y \<le> snd x"
    by auto
  have "q \<in> set (take n ?s) \<union> set (drop n ?s)"
    using assms(2) by (simp only: set_append [symmetric] append_take_drop_id) simp
  then have "q \<in> set (drop n ?s)"
    using assms(3) by (simp add: most_common_def)
  with * assms(1) show ?thesis
    by (auto simp: most_common_def)
qed

lemma most_common_subset: "set (most_common n c) \<subseteq> set c"
  using set_take_subset [of n "sort_key (\<lambda>p. - snd p) c"] by (simp add: most_common_def)

lemma most_common_distinct: "distinct (map fst c) \<Longrightarrow> distinct (map fst (most_common n c))"
  by (simp add: most_common_def distinct_map distinct_take)
     (metis inj_on_subset set_sort set_take_subset)

lemma most_common_length: "length (most_common n c) = min n (length c)"
  by (simp add: most_common_def min.commute)

lemmas popular_defs = popular_tag_counter_def count_scene_tags_def tag_names_of_def
  counter_add_def get_default_def most_common_def get_popular_tags_def

lemma c9_counter: "popular_tag_counter c9_scenes 3 = [(''x'', 5), (''y'', 5)]"
  by (simp add: popular_defs c9_scenes_def)

lemma c9_result: "get_popular_tags c9_scenes 3 5 = [''x'', ''y'']"
  by (simp add: get_popular_tags_def c9_counter most_common_def)

text \<open>
  C9. \<^verbatim>\<open>_get_popular_tags(min_o_counter, top_n)\<close> returns the \<open>top_n\<close> tag names
  ranked by accumulated weight. The counter it builds holds exactly the non-empty tag
  names of the scenes with \<^verbatim>\<open>o_counter >= min_o_counter\<close>, each with the weight
  \<open>tag_weight\<close>: the sum, over those scenes, of the scene's \<^verbatim>\<open>o_counter\<close> times the
  number of occurrences of the tag in it; scenes below the threshold add nothing. The
  result has no duplicates, has \<open>top_n\<close> names (or all of them, if there are fewer),
  is in descending order of weight, and no name left out is heavier than a name
  returned. On the scenario's two scenes with threshold 3 and \<open>top_n = 5\<close> it is
  \<open>[x, y]\<close>, both of weight 5.
\<close>

theorem get_popular_tags_weighted_top_n:
  "distinct (get_popular_tags scenes m n)
   \<and> length (get_popular_tags scenes m n) = min n (card (set (weighted_tag_names scenes m)))
   \<and> set (get_popular_tags scenes m n) \<subseteq> set (weighted_tag_names scenes m)
   \<and> sorted (map (\<lambda>t. - tag_weight scenes m t) (get_popular_tags scenes m n))
   \<and> (\<forall>t \<in> set (weighted_tag_names scenes m) - set (get_popular_tags scenes m n).
        \<forall>u \<in> set (get_popular_tags scenes m n). tag_weight scenes m t \<le> tag_weight scenes m u)
   \<and> (\<forall>p \<in> set (popular_tag_counter scenes m). snd p = tag_weight scenes m (fst p))
   \<and> get_popular_tags c9_scenes 3 5 = [''x'', ''y'']
   \<and> tag_weight c9_scenes 3 ''x'' = 5 \<and> tag_weight c9_scenes 3 ''y'' = 5"
proof -
  let ?c = "popular_tag_counter scenes m"
  let ?r = "get_popular_tags scenes m n"
  have d: "distinct (map fst ?c)" by (rule popular_tag_counter_distinct)
  have w: "snd p = tag_weight scenes m (fst p)" if "p \<in> set ?c" for p
    using that popular_tag_counter_weight [of "fst p" "snd p" scenes m] by simp
  have 1: "distinct ?r"
    unfolding get_popular_tags_def by (rule most_common_distinct [OF d])
  have "length ?c = card (fst ` set ?c)"
    using d by (metis distinct_card length_map set_map)
  then have 2: "length ?r = min n (card (set (weighted_tag_names scenes m)))"
    by (simp add: get_popular_tags_def most_common_length popular_tag_counter_keys)
  have 3: "set ?r \<subseteq> set (weighted_tag_names scenes m)"
    using most_common_subset [of n ?c] popular_tag_counter_keys [of scenes m]
    by (auto simp: get_popular_tags_def)
  have "map (\<lambda>t. - tag_weight scenes m t) ?r = map (\<lambda>p. - snd p) (most_common n ?c)"
    using most_common_subset [of n ?c] w by (auto simp: get_popular_tags_def)
  then have 4: "sorted (map (\<lambda>t. - tag_weight scenes m t) ?r)"
    by (simp add: most_common_sorted)
  have 5: "tag_weight scenes m t \<le> tag_weight scenes m u"
    if t: "t \<in> set (weighted_tag_names scenes m) - set ?r" and u: "u \<in> set ?r" for t u
  proof -
    have "t \<in> fst ` set ?c"
      using t by (simp add: popular_tag_counter_keys)
    then obtain q where q: "q \<in> set ?c" "fst q = t"
      by auto
    obtain p where p: "p \<in> set (most_common n ?c)" "fst p = u"
      using u by (auto simp: get_popular_tags_def)
    have "q \<notin> set (most_common n ?c)"
      using t q by (auto simp: get_popular_tags_def)
    from most_common_rest [OF p(1) q(1) this]
    show ?thesis
      using w [OF q(1)] w [of p] p most_common_subset [of n ?c] q by auto
  qed
  have 6: "tag_weight c9_scenes 3 ''x'' = 5 \<and> tag_weight c9_scenes 3 ''y'' = 5"
    by (simp add: tag_weight_def c9_scenes_def qualifies_def get_default_def tag_names_of_def)
  show ?thesis
    using 1 2 3 4 5 6 w c9_result by blast
qed

theorem get_popular_tags_weighted_top_n_witness:
  "get_popular_tags c9_scenes 3 1 = [''x'']
   \<and> ''y'' \<in> set (weighted_tag_names c9_scenes 3) - set (get_popular_tags c9_scenes 3 1)
   \<and> tag_weight c9_scenes 3 ''y'' \<le> tag_weight c9_scenes 3 ''x''
   \<and> length (get_popular_tags c9_scenes 3 1) = min 1 (card (set (weighted_tag_names c9_scenes 3)))"
proof -
  have r: "get_popular_tags c9_scenes 3 1 = [''x'']"
    by (simp add: get_popular_tags_def c9_counter most_common_def)
  have k: "weighted_tag_names c9_scenes 3 = [''x'', ''y'']"
    by (simp add: weighted_tag_names_def c9_scenes_def qualifies_def get_default_def
          tag_names_of_def)
  show ?thesis
    using get_popular_tags_weighted_top_n [of c9_scenes 3 1] unfolding r k by simp
qed

section \<open>Properties of \<^verbatim>\<open>recommend_scenes\<close>\<close>

lemma map_other_keys:
  "k \<notin> fst ` set al \<Longrightarrow>
   map (\<lambda>e. (fst e, if fst e = k then f (snd e) else snd e)) al = al"
  by (induction al) auto

lemma map_entry_distinct:
  "distinct (map fst al) \<Longrightarrow>
   AList.map_entry k f al = map (\<lambda>e. (fst e, if fst e = k then f (snd e) else snd e)) al"
  by (induction al) (auto simp: map_other_keys)

lemma process_scene_step:
  assumes "distinct (map fst recs)"
  shows "process_scene pt tp ct scene recs =
           map (\<lambda>e. (fst e, snd e @ assigned pt tp ct [scene] (fst e))) recs"
  using assms
  by (auto simp: process_scene_def map_entry_distinct assigned_def unseen_def)

lemma assigned_Cons:
  "assigned pt tp ct (scene # scenes) c = assigned pt tp ct [scene] c @ assigned pt tp ct scenes c"
  by (simp add: assigned_def)

lemma fold_process_scene:
  assumes "distinct (map fst recs)"
  shows "fold (process_scene pt tp ct) scenes recs =
           map (\<lambda>e. (fst e, snd e @ assigned pt tp ct scenes (fst e))) recs"
  using assms
proof (induction scenes arbitrary: recs)
  case Nil
  show ?case by (simp add: assigned_def)
next
  case (Cons scene scenes)
  let ?r = "map (\<lambda>e. (fst e, snd e @ assigned pt tp ct [scene] (fst e))) recs"
  have d: "distinct (map fst ?r)"
    using Cons.prems by (simp add: comp_def)
  show ?case
    by (simp add: process_scene_step [OF Cons.prems] Cons.IH [OF d] comp_def
          assigned_Cons [of pt tp ct scene scenes])
qed

lemma distinct_empty_recommendations: "distinct (map fst empty_recommendations)"
  by (simp add: empty_recommendations_def)

lemma scene_try_characterisation:
  "scene_try s st =
     map (\<lambda>category.
            (category,
             category_limit category
               (assigned (get_popular_tags (scenes_data s) 3 20)
                  (map (\<lambda>p. get_default (name p) []) (top_o_counter_performers st))
                  (most_common_tags (scenes_data s)) (scenes_data s) category)))
       (map fst empty_recommendations)"
  unfolding scene_try_def Let_def fold_process_scene [OF distinct_empty_recommendations]
  by (simp add: category_limit_def sort_and_limit_def empty_recommendations_def)

lemma assigned_to_eq:
  "assigned_to s st c =
     assigned (get_popular_tags (scenes_data s) 3 20)
       (map (\<lambda>p. get_default (name p) []) (top_o_counter_performers st))
       (most_common_tags (scenes_data s)) (scenes_data s) c"
  by (simp add: assigned_to_def assigned_def scene_record_of_def scene_category_def
        popular_tags_of_def top_performer_names_of_def)

lemma recommend_scenes_cold_eq:
  assumes "scene_recommendation_cache s = []" "scenes_data s \<noteq> []" "generate_all_stats s = Inr st"
  shows "fst (recommend_scenes s) =
           map (\<lambda>category. (category, category_limit category (assigned_to s st category)))
             category_names"
proof -
  have "fst (recommend_scenes s) = scene_try (s\<lparr>recommendation_counter := recommendation_counter s + 1\<rparr>) st"
    using assms by (simp add: recommend_scenes_def Let_def)
  also have "\<dots> = map (\<lambda>category. (category, category_limit category (assigned_to s st category)))
             category_names"
    unfolding scene_try_characterisation category_names_def
    by (simp add: assigned_to_eq)
  finally show ?thesis .
qed

lemma category_limit_subset: "set (category_limit c l) \<subseteq> set l"
  using set_take_subset [of 15 "sort_key (\<lambda>x. - tag_similarity x) l"]
    set_take_subset [of 10 "sort_key (\<lambda>x. - int (similarity x)) l"]
  by (auto simp: category_limit_def sort_and_limit_def)




text \<open>
  C2, amended. On a cold scene cache, with a non-empty snapshot and a statistics call
  that returns, every record in every category of the mapping returned by
  \<^verbatim>\<open>recommend_scenes\<close> has as \<^verbatim>\<open>similarity\<close> (the popularity score) the size of the
  intersection of its tag set with \<^verbatim>\<open>_get_popular_tags(min_o_counter=3)\<close>, the top 20.
\<close>

theorem recommend_scenes_popularity_threshold:
  assumes "scene_recommendation_cache s = []" "scenes_data s \<noteq> []"
    "generate_all_stats s = Inr st"
  shows "\<forall>e \<in> set (fst (recommend_scenes s)). \<forall>r \<in> set (snd e).
           similarity r = card (set (tags_rec r) \<inter> set (get_popular_tags (scenes_data s) 3 20))"
proof (intro ballI)
  fix e r
  assume "e \<in> set (fst (recommend_scenes s))" "r \<in> set (snd e)"
  then have "r \<in> set (assigned_to s st (fst e))"
    using category_limit_subset unfolding recommend_scenes_cold_eq [OF assms] by fastforce
  then show "similarity r = card (set (tags_rec r) \<inter> set (get_popular_tags (scenes_data s) 3 20))"
    by (auto simp: assigned_to_def scene_record_of_def scene_record_def popular_tags_of_def)
qed

text \<open>
  C10. With an empty scene snapshot and an empty scene cache, \<^verbatim>\<open>recommend_scenes\<close>
  returns the empty mapping (and only advances the counter): no category is a key of
  the result, which is not the mapping of the four categories to empty lists.
\<close>

theorem recommend_scenes_empty_snapshot:
  assumes "scenes_data s = []" "scene_recommendation_cache s = []"
  shows "recommend_scenes s = ([], s\<lparr>recommendation_counter := recommendation_counter s + 1\<rparr>)
         \<and> map_of (fst (recommend_scenes s)) category = None
         \<and> fst (recommend_scenes s) \<noteq> empty_recommendations"
  using assms by (simp add: recommend_scenes_def Let_def empty_recommendations_def)

lemma c2_popular_3: "get_popular_tags (scenes_data c2_state) 3 20 = []"
  by (simp add: c2_state_def c2_seen_def c2_unseen_def popular_defs)

lemma c2_popular_1: "get_popular_tags (scenes_data c2_state) 1 20 = [''x'']"
  by (simp add: c2_state_def c2_seen_def c2_unseen_def popular_defs)

lemma c2_common: "most_common_tags (scenes_data c2_state) = []"
  by (simp add: c2_state_def c2_seen_def c2_unseen_def most_common_tags_def
        high_o_counter_tags_def get_default_def most_common_def)

lemma c2_cold:
  "scene_recommendation_cache c2_state = []" "scenes_data c2_state \<noteq> []"
  "generate_all_stats c2_state = Inr empty_stats"
  by (simp_all add: c2_state_def)

lemma c2_scenes: "scenes_data c2_state = [c2_seen, c2_unseen]"
  by (simp add: c2_state_def)

lemma c2_unseen_facts: "unseen c2_unseen" "\<not> unseen c2_seen"
  by (simp_all add: unseen_def c2_unseen_def c2_seen_def get_default_def)

lemma c2_category:
  "scene_category c2_state empty_stats c2_unseen = ''non_favorite_performer_scenes''"
  by (simp add: scene_category_def c2_common top_performer_names_of_def empty_stats_def
        category_of_def has_favorite_performer_def has_top_performer_def performer_names_def
        calculate_tag_similarity_def c2_unseen_def)

lemma c2_record:
  "scene_record_of c2_state c2_unseen =
     \<lparr>id_rec = Some ''B'', title_rec = ''unseen'', performers_rec = [],
      tags_rec = [''x''], tag_similarity = 0, similarity = 0\<rparr>"
  by (simp add: scene_record_of_def popular_tags_of_def c2_popular_3 c2_common
        scene_record_def c2_unseen_def tag_names_of_def get_default_def performer_names_def
        calculate_tag_similarity_def)

lemma c2_assigned:
  "assigned_to c2_state empty_stats c =
     (if c = ''non_favorite_performer_scenes''
      then [\<lparr>id_rec = Some ''B'', title_rec = ''unseen'', performers_rec = [],
             tags_rec = [''x''], tag_similarity = 0, similarity = 0\<rparr>]
      else [])"
  by (simp add: assigned_to_def c2_scenes c2_unseen_facts c2_category c2_record)

lemma c2_result:
  "fst (recommend_scenes c2_state) =
     [(''favorite_performer_scenes'', []),
      (''non_favorite_performer_scenes'',
         [\<lparr>id_rec = Some ''B'', title_rec = ''unseen'', performers_rec = [],
           tags_rec = [''x''], tag_similarity = 0, similarity = 0\<rparr>]),
      (''recommended_performer_scenes'', []),
      (''similar_tag_scenes'', [])]"
  unfolding recommend_scenes_cold_eq [OF c2_cold]
  by (simp add: category_names_def empty_recommendations_def c2_assigned category_limit_def
        sort_and_limit_def)

text \<open>
  C2, as stated, fails: with one scene seen once and one unseen scene, both tagged
  \<open>x\<close>, the unseen scene is returned with popularity score 0, while its tags share one
  name with the vocabulary of threshold 1.
\<close>

theorem popularity_score_threshold_counterexample:
  "fst (recommend_scenes c2_state) =
     [(''favorite_performer_scenes'', []),
      (''non_favorite_performer_scenes'',
         [\<lparr>id_rec = Some ''B'', title_rec = ''unseen'', performers_rec = [],
           tags_rec = [''x''], tag_similarity = 0, similarity = 0\<rparr>]),
      (''recommended_performer_scenes'', []),
      (''similar_tag_scenes'', [])]
   \<and> card (set [''x''] \<inter> set (get_popular_tags (scenes_data c2_state) 1 20)) = 1"
  by (simp add: c2_result c2_popular_1)

theorem recommend_scenes_popularity_threshold_witness:
  "similarity \<lparr>id_rec = Some ''B'', title_rec = ''unseen'', performers_rec = [],
           tags_rec = [''x''], tag_similarity = 0, similarity = 0\<rparr>
     = card (set [''x''] \<inter> set (get_popular_tags (scenes_data c2_state) 3 20))"
  using recommend_scenes_popularity_threshold [OF c2_cold] unfolding c2_result
  by simp









theorem recommend_scenes_empty_snapshot_witness:
  "recommend_scenes c10_state = ([], c10_state\<lparr>recommendation_counter := 1\<rparr>)
   \<and> map_of (fst (recommend_scenes c10_state)) ''favorite_performer_scenes'' = None"
  using recommend_scenes_empty_snapshot [of c10_state "''favorite_performer_scenes''"]
  by (simp add: c10_state_def)

section \<open>Properties of \<^verbatim>\<open>recommend_performers\<close>\<close>

lemma find_similar_returns: "\<exists>found. find_similar b pd = Inr found"
proof (induction pd)
  case Nil
  show ?case by simp
next
  case (Cons t pd)
  obtain found where f: "find_similar b pd = Inr found"
    using Cons.IH by blast
  obtain sim where s: "calculate_similarity b t = Inr sim"
    using calculate_similarity_ok [of b t] unfolding nonneg_ok_iff by blast
  show ?case
    by (simp add: f s)
qed

lemma o_counter_strategy_no_error: "snd (o_counter_strategy pd seeds a) = None"
proof (induction seeds arbitrary: a)
  case Nil
  show ?case by simp
next
  case (Cons b seeds)
  obtain found where f: "find_similar b pd = Inr found"
    using find_similar_returns by blast
  show ?case
    by (simp add: f Let_def Cons.IH)
qed

lemma find_volume_similar_returns: "\<exists>found. find_volume_similar tv pd = Inr found"
proof (induction pd)
  case Nil
  show ?case by simp
next
  case (Cons p pd)
  obtain found where f: "find_volume_similar tv pd = Inr found"
    using Cons.IH by blast
  have "max tv (get_default (volume_cc p) 0) \<noteq> 0" if "get_default (volume_cc p) 0 > 0"
    using that by (simp add: max_def)
  then show ?case
    by (simp add: f Let_def py_truediv_def)
qed


lemma volume_strategy_no_error: "snd (volume_strategy pd seeds a) = None"
proof (induction seeds arbitrary: a)
  case Nil
  show ?case by simp
next
  case (Cons v seeds)
  obtain found where f: "find_volume_similar (get_default (volume_cc v) 0) pd = Inr found"
    using find_volume_similar_returns by blast
  show ?case
    by (simp add: f Let_def Cons.IH)
qed




lemma rotate_list_mod: "rotate_list (n mod length xs) xs = rotate n xs"
  by (simp add: rotate_list_def rotate_drop_take)

lemma recommend_performers_warm:
  assumes "performer_recommendation_cache s \<noteq> []"
  shows "recommend_performers rnd s
           = (take 10 (rotate (recommendation_counter s + 1) (pool s)),
              s\<lparr>recommendation_counter := recommendation_counter s + 1\<rparr>)"
  using assms
  by (simp add: recommend_performers_def Let_def pool_def rotate_list_mod del: rotate_Suc)

lemma recommend_performers_counter:
  "recommendation_counter (snd (recommend_performers rnd s)) = recommendation_counter s + 1"
  by (simp add: recommend_performers_def Let_def split: prod.splits option.splits)

lemma recommend_performers_scene_cache:
  "scene_recommendation_cache (snd (recommend_performers rnd s)) = scene_recommendation_cache s"
  by (simp add: recommend_performers_def Let_def split: prod.splits option.splits)

lemma recommend_scenes_counter:
  "recommendation_counter (snd (recommend_scenes s)) = recommendation_counter s + 1"
  by (simp add: recommend_scenes_def Let_def split: sum.splits)

lemma recommend_scenes_performer_cache:
  "performer_recommendation_cache (snd (recommend_scenes s)) = performer_recommendation_cache s"
  by (simp add: recommend_scenes_def Let_def split: sum.splits)

lemma recommend_scenes_warm:
  assumes "scene_recommendation_cache s \<noteq> []"
  shows "recommend_scenes s
           = (map (rotate_category (recommendation_counter s + 1)) (scene_recommendation_cache s),
              s\<lparr>recommendation_counter := recommendation_counter s + 1\<rparr>)"
  using assms by (simp add: recommend_scenes_def Let_def)

text \<open>
  C3, amended. The module has one rotation counter, shared by both caches. Every call
  of \<^verbatim>\<open>recommend_performers\<close> and every call of \<^verbatim>\<open>recommend_scenes\<close> adds one to it,
  and neither touches the other's cache. On a populated performer cache a call serves
  the pool rotated by the counter after the increment; after one intervening call of
  \<^verbatim>\<open>recommend_scenes\<close> it serves the next rotation. The same holds for the scene cache
  with an intervening call of \<^verbatim>\<open>recommend_performers\<close>.
\<close>

theorem shared_rotation_counter:
  "recommendation_counter (snd (recommend_scenes s)) = recommendation_counter s + 1
   \<and> recommendation_counter (snd (recommend_performers rnd s)) = recommendation_counter s + 1
   \<and> performer_recommendation_cache (snd (recommend_scenes s)) = performer_recommendation_cache s
   \<and> scene_recommendation_cache (snd (recommend_performers rnd s)) = scene_recommendation_cache s
   \<and> (performer_recommendation_cache s \<noteq> [] \<longrightarrow>
        fst (recommend_performers rnd s)
          = take 10 (rotate (recommendation_counter s + 1) (pool s))
        \<and> fst (recommend_performers rnd (snd (recommend_scenes s)))
          = take 10 (rotate (recommendation_counter s + 2) (pool s)))
   \<and> (scene_recommendation_cache s \<noteq> [] \<longrightarrow>
        fst (recommend_scenes s)
          = map (rotate_category (recommendation_counter s + 1)) (scene_recommendation_cache s)
        \<and> fst (recommend_scenes (snd (recommend_performers rnd s)))
          = map (rotate_category (recommendation_counter s + 2)) (scene_recommendation_cache s))"
proof -
  have p: "fst (recommend_performers rnd (snd (recommend_scenes s)))
          = take 10 (rotate (recommendation_counter s + 2) (pool s))"
    if "performer_recommendation_cache s \<noteq> []"
  proof -
    have "performer_recommendation_cache (snd (recommend_scenes s)) \<noteq> []"
      using that by (simp add: recommend_scenes_performer_cache)
    from recommend_performers_warm [OF this] show ?thesis
      by (simp add: recommend_scenes_counter pool_def recommend_scenes_performer_cache
            del: rotate_Suc)
  qed
  have q: "fst (recommend_scenes (snd (recommend_performers rnd s)))
          = map (rotate_category (recommendation_counter s + 2)) (scene_recommendation_cache s)"
    if "scene_recommendation_cache s \<noteq> []"
  proof -
    have "scene_recommendation_cache (snd (recommend_performers rnd s)) \<noteq> []"
      using that by (simp add: recommend_performers_scene_cache)
    from recommend_scenes_warm [OF this] show ?thesis
      by (simp add: recommend_performers_counter recommend_performers_scene_cache)
  qed
  show ?thesis
    using p q
    by (simp add: recommend_scenes_counter recommend_performers_counter
          recommend_scenes_performer_cache recommend_performers_scene_cache
          recommend_performers_warm recommend_scenes_warm del: rotate_Suc)
qed












lemma performer_try_returns:
  assumes "generate_all_stats s = Inr st"
  shows "performer_try rnd s =
           (let a1 = fst (o_counter_strategy (performers_data s) (top_o_counter_performers st)
                            (performer_recommendation_cache s, []));
                a2 = (if top_volume_performers st \<noteq> [] \<and> \<not> df_empty (cup_size_dataframe st)
                      then fst (volume_strategy (performers_data s) (top_volume_performers st) a1)
                      else a1)
            in (if cup_letter_o_stats st \<noteq> []
                then cup_strategy rnd (performers_data s) 0
                       (take 3 (sorted_cup_stats (cup_letter_o_stats st))) a2
                else a2, None))"
proof -
  obtain a1 where a1: "o_counter_strategy (performers_data s) (top_o_counter_performers st)
                  (performer_recommendation_cache s, []) = (a1, None)"
    using o_counter_strategy_no_error by (metis prod.collapse)
  obtain a2 where a2: "volume_strategy (performers_data s) (top_volume_performers st) a1 = (a2, None)"
    using volume_strategy_no_error by (metis prod.collapse)
  show ?thesis
    by (simp add: performer_try_def assms a1 a2 Let_def)
qed




lemma shuffle_identity: "shuffle (identity_shuffle k) xs = xs"
  by (simp add: shuffle_def identity_shuffle_def map_nth)

lemma c6_find:
  "find_volume_similar 400 [c6_candidate] =
     Inr [\<lparr>id_candidate = Some ''c1'', name_candidate = ''Cand'',
           o_counter_candidate = 0, similarity_candidate = 1\<rparr>]"
  by (simp add: c6_candidate_def blank_performer_def get_default_def py_truediv_def Let_def
        display_name_def)

lemma c6_step:
  "volume_strategy [c6_candidate] (c6_seed i # seeds) a =
     volume_strategy [c6_candidate] seeds (store (c6_record i) a)"
proof -
  have v: "get_default (volume_cc (c6_seed i)) 0 = 400" "get_default (o_counter (c6_seed i)) 0 = 5"
    by (simp_all add: c6_seed_def get_default_def)
  show ?thesis
    unfolding volume_strategy.simps v c6_find
    by (simp add: Let_def by_similarity_def c6_record_def c6_seed_def display_name_def
          str_id_def get_default_def)
qed

lemma c6_volume:
  "volume_strategy [c6_candidate] (map c6_seed c6_ids) ([], []) =
     ((c6_cache, map c6_record c6_ids), None)"
  unfolding c6_ids_def list.map c6_step
  by (simp add: store_def c6_cache_def c6_ids_def c6_record_def)

lemma c6_try: "performer_try rnd c6_state = ((c6_cache, map c6_record c6_ids), None)"
proof -
  have "generate_all_stats c6_state = Inr (c6_stats [[''name'']])"
    by (simp add: c6_state_def)
  from performer_try_returns [OF this, of rnd] show ?thesis
    by (simp add: Let_def c6_stats_def c6_state_def c6_volume df_empty_def c6_ids_def [symmetric])
       (simp add: c6_ids_def)
qed

lemma c6_cold_call:
  "recommend_performers identity_shuffle c6_state =
     (take 10 (map c6_record c6_ids),
      c6_state\<lparr>recommendation_counter := 1, performer_recommendation_cache := c6_cache\<rparr>)"
proof -
  have "performer_try identity_shuffle (c6_state\<lparr>recommendation_counter := 1\<rparr>)
          = performer_try identity_shuffle c6_state"
    by (simp add: performer_try_def split: sum.splits prod.splits option.splits)
  then show ?thesis
    by (simp add: recommend_performers_def Let_def c6_try shuffle_identity)
       (simp add: c6_state_def)
qed

lemma c6_after_cold:
  "snd (recommend_performers identity_shuffle c6_state) =
     c6_state\<lparr>recommendation_counter := 1, performer_recommendation_cache := c6_cache\<rparr>"
  by (simp add: c6_cold_call)

lemma c6_warm_facts:
  "performer_recommendation_cache c6_warm \<noteq> []" "pool c6_warm = map c6_record c6_ids"
  "recommendation_counter c6_warm = 1" "scenes_data c6_warm = []"
  "scene_recommendation_cache c6_warm = []"
  by (simp_all add: c6_warm_def c6_cache_def c6_ids_def pool_def comp_def c6_state_def)

lemma c6_second_call:
  "map id_recommendation (fst (recommend_performers identity_shuffle c6_warm)) =
     map (\<lambda>i. ''volume_'' @ i)
       [''p03'', ''p04'', ''p05'', ''p06'', ''p07'', ''p08'', ''p09'', ''p10'', ''p11'', ''p01'']"
  unfolding recommend_performers_warm [OF c6_warm_facts(1)] c6_warm_facts
  by (simp add: rotate_drop_take c6_ids_def c6_record_def)


lemma c6_after_scenes:
  "map id_recommendation
     (fst (recommend_performers identity_shuffle (snd (recommend_scenes c6_warm)))) =
     map (\<lambda>i. ''volume_'' @ i)
       [''p04'', ''p05'', ''p06'', ''p07'', ''p08'', ''p09'', ''p10'', ''p11'', ''p01'', ''p02'']"
proof -
  have s: "snd (recommend_scenes c6_warm)
             = c6_warm\<lparr>recommendation_counter := recommendation_counter c6_warm + 1\<rparr>"
    by (simp add: recommend_scenes_def Let_def c6_warm_facts)
  let ?s = "c6_warm\<lparr>recommendation_counter := recommendation_counter c6_warm + 1\<rparr>"
  have c: "performer_recommendation_cache ?s \<noteq> []" and p: "pool ?s = map c6_record c6_ids"
    using c6_warm_facts by (simp_all add: pool_def)
  show ?thesis
    unfolding s recommend_performers_warm [OF c] p
    by (simp add: c6_warm_facts rotate_drop_take c6_ids_def c6_record_def)
qed


text \<open>
  C3, as stated, fails: after the first call on the snapshot with eleven volume seeds
  (eleven cached records, counter 1), the next call of
  \<^verbatim>\<open>recommend_performers\<close> serves the rotation that starts at the third record, but
  after one call of \<^verbatim>\<open>recommend_scenes\<close> in between it serves the rotation that starts
  at the fourth.
\<close>

theorem scenes_call_moves_rotation_counterexample:
  "snd (recommend_performers identity_shuffle c6_state) = c6_warm
   \<and> map id_recommendation (fst (recommend_performers identity_shuffle c6_warm))
     = map ((@) ''volume_'')
         [''p03'', ''p04'', ''p05'', ''p06'', ''p07'', ''p08'', ''p09'', ''p10'', ''p11'', ''p01'']
   \<and> map id_recommendation
        (fst (recommend_performers identity_shuffle (snd (recommend_scenes c6_warm))))
     = map ((@) ''volume_'')
         [''p04'', ''p05'', ''p06'', ''p07'', ''p08'', ''p09'', ''p10'', ''p11'', ''p01'', ''p02'']"
  using c6_second_call c6_after_scenes c6_after_cold by (simp add: c6_warm_def)






theorem shared_rotation_counter_witness:
  "fst (recommend_performers identity_shuffle c6_warm) = take 10 (rotate 2 (pool c6_warm))
   \<and> fst (recommend_performers identity_shuffle (snd (recommend_scenes c6_warm)))
        = take 10 (rotate 3 (pool c6_warm))"
  using shared_rotation_counter [of c6_warm identity_shuffle] c6_warm_facts(1)
  by (simp add: c6_warm_facts(3) numeral_2_eq_2 numeral_3_eq_3 del: rotate_Suc)



end
